theory Spec2Isabelle
  imports Complex_Main "HOL-Library.Log_Nat"
begin

section \<open>Data model\<close>

text \<open>
  The repository holds two servers with the same routes: the document-store server
  (Mongoose, with an in-memory fallback list) and the relational server
  (\<^verbatim>\<open>server-postgres.js\<close>). Both are embedded below, handler by handler.

  The requests of the model are those whose \<^verbatim>\<open>tableNo\<close> and \<^verbatim>\<open>total\<close> are numbers or
  absent and whose \<^verbatim>\<open>items\<close> is an array of line-item objects or absent; an absent (or
  null) field is \<open>None\<close>. A number is a finite IEEE double, held as the rational it denotes.
  A string is held as the bytes of its UTF-8 encoding. A line item carries the fields the
  handlers read, its preparation times numbers or absent.
\<close>

record item =
  name :: string
  price :: rat
  quantity :: rat
  category :: string
  prepTime :: "rat option"
  prep_time :: "rat option"

text \<open>HTTP 400, 404 and 500 answers of the handlers, in the vocabulary of the specification.\<close>

datatype error = ValidationError string | NotFoundError | DependencyError

fun is_ValidationError :: "error + 'a \<Rightarrow> bool" where
  "is_ValidationError (Inl (ValidationError msg)) = True"
| "is_ValidationError r = False"

text \<open>Values of the objects that are emitted to socket rooms.\<close>

datatype jv = Num rat | Str string | Items "item list" | Date nat

type_synonym payload = "(string \<times> jv) list"

text \<open>Rooms: \<^verbatim>\<open>'chef_portal'\<close> and \<^verbatim>\<open>'table_' + tableNo\<close>.\<close>

datatype room = chef_portal | table_room rat

text \<open>
  The effects of a handler, in the order in which it performs them: a completed write to
  the order store (labelled with the call that wrote) and \<^verbatim>\<open>io.to(room).emit(event, payload)\<close>.
\<close>

datatype effect = Write string | Emit room string payload

fun published :: "effect list \<Rightarrow> (room \<times> string \<times> payload) list" where
  "published [] = []"
| "published (Write w # es) = published es"
| "published (Emit r ev p # es) = (r, ev, p) # published es"

text \<open>JavaScript truthiness of a number-or-absent value: \<^verbatim>\<open>!v\<close> holds for undefined, null and 0.\<close>

definition falsy :: "rat option \<Rightarrow> bool" where
  "falsy v \<longleftrightarrow> (case v of None \<Rightarrow> True | Some n \<Rightarrow> n = 0)"

text \<open>\<^verbatim>\<open>a || b\<close> on such values, and \<^verbatim>\<open>a || d\<close> with a number \<open>d\<close> on the right.\<close>

definition js_or :: "rat option \<Rightarrow> rat option \<Rightarrow> rat option" where
  "js_or a b = (if falsy a then b else a)"

definition js_or_num :: "rat option \<Rightarrow> rat \<Rightarrow> rat" where
  "js_or_num a d = (case a of None \<Rightarrow> d | Some n \<Rightarrow> if n = 0 then d else n)"

text \<open>\<^verbatim>\<open>!items || !items.length\<close>: an array is truthy, its length 0 is not.\<close>

definition no_items :: "item list option \<Rightarrow> bool" where
  "no_items its \<longleftrightarrow> (case its of None \<Rightarrow> True | Some xs \<Rightarrow> length xs = 0)"

text \<open>
  Arithmetic on numbers is IEEE double arithmetic: the exact result, rounded to the nearest
  double, ties to the even significand. \<open>to_double\<close> is that rounding (the exponent left
  unbounded above: a sum of a finite double and 5 does not overflow); \<open>floor_log2\<close> is
  the exponent of a positive rational.
\<close>

definition pow2 :: "int \<Rightarrow> rat" where
  "pow2 e = (if 0 \<le> e then 2 ^ nat e else 1 / 2 ^ nat (- e))"

definition floor_log2 :: "rat \<Rightarrow> int" where
  "floor_log2 x =
     (let (p, q) = quotient_of x; d = bitlen p - bitlen q
      in if pow2 d \<le> x then d else d - 1)"

definition round_even :: "rat \<Rightarrow> int" where
  "round_even x =
     (let f = \<lfloor>x\<rfloor>; r = x - of_int f
      in if r < 1 / 2 then f else if 1 / 2 < r then f + 1 else if even f then f else f + 1)"

definition to_double :: "rat \<Rightarrow> rat" where
  "to_double x =
     (if x = 0 then 0
      else let q = pow2 (max (floor_log2 \<bar>x\<bar> - 52) (- 1074))
           in of_int (round_even (x / q)) * q)"

text \<open>\<^verbatim>\<open>Math.max(...xs)\<close>; with no argument the result is -Infinity, here \<open>None\<close>.\<close>

fun Math_max :: "rat list \<Rightarrow> rat option" where
  "Math_max [] = None"
| "Math_max (x # xs) = (case Math_max xs of None \<Rightarrow> Some x | Some m \<Rightarrow> Some (max x m))"

definition validStatuses :: "string list" where
  "validStatuses = [''pending'', ''confirmed'', ''preparing'', ''ready'', ''served'', ''cancelled'']"

text \<open>\<^verbatim>\<open>Date.now().toString()\<close>: the decimal digits of the clock reading.\<close>

fun toString :: "nat \<Rightarrow> string" where
  "toString n =
     (if n < 10 then [char_of (48 + n)]
      else toString (n div 10) @ [char_of (48 + n mod 10)])"

declare toString.simps [simp del]

section \<open>The document-store server\<close>

text \<open>
  An order object: the fallback branch builds it as a literal (without \<^verbatim>\<open>updatedAt\<close>),
  the database branch gets it from \<^verbatim>\<open>orderSchema\<close>, whose defaults fill \<^verbatim>\<open>status\<close>,
  \<^verbatim>\<open>createdAt\<close> and \<^verbatim>\<open>updatedAt\<close>.
\<close>

record order =
  oid :: string
  tableNo :: rat
  items :: "item list"
  order_total :: rat
  estimatedTime :: rat
  status :: string
  createdAt :: nat
  updatedAt :: "nat option"

text \<open>The order object as it is serialised into an event.\<close>

definition order_obj :: "order \<Rightarrow> payload" where
  "order_obj ord =
     [(''_id'', Str (oid ord)), (''tableNo'', Num (tableNo ord)), (''items'', Items (items ord)),
      (''total'', Num (order_total ord)), (''estimatedTime'', Num (estimatedTime ord)),
      (''status'', Str (status ord)), (''createdAt'', Date (createdAt ord))]
     @ (case updatedAt ord of None \<Rightarrow> [] | Some u \<Rightarrow> [(''updatedAt'', Date u)])"

text \<open>
  The server's state: \<^verbatim>\<open>mongoose.connection.readyState\<close> (1 is connected), the documents
  of the \<^verbatim>\<open>Order\<close> collection, the module variable \<^verbatim>\<open>inMemoryOrders\<close>, and the effects
  performed so far.
\<close>

record mongo =
  readyState :: nat
  collection :: "order list"
  inMemoryOrders :: "order list"
  effects :: "effect list"

text \<open>
  The item sub-schema of \<^verbatim>\<open>orderSchema\<close> lists name, price, quantity, category and image;
  a stored document keeps no other field of a line item.
\<close>

definition schema_item :: "item \<Rightarrow> item" where
  "schema_item it = it\<lparr>prepTime := None, prep_time := None\<rparr>"

text \<open>
  \<^verbatim>\<open>POST /api/order\<close>. The environment supplies the clock reading \<open>now\<close>, the
  ObjectId \<open>newId\<close> that \<^verbatim>\<open>new Order\<close> generates, and whether the promise of
  \<^verbatim>\<open>order.save()\<close> resolves (\<open>saved\<close>); a rejected promise is caught and answered with 500.
  Past the first check \<^verbatim>\<open>items\<close> has an element, so \<^verbatim>\<open>Math.max\<close> gets an argument.
\<close>

definition placeOrder_mongo ::
  "nat \<Rightarrow> string \<Rightarrow> bool \<Rightarrow> rat option \<Rightarrow> item list option \<Rightarrow> rat option \<Rightarrow> mongo
    \<Rightarrow> (error + order) \<times> mongo" where
  "placeOrder_mongo now newId saved tNo its tot s =
     (if falsy tNo \<or> no_items its \<or> falsy tot
      then (Inl (ValidationError ''Missing required fields''), s)
      else
        let est = to_double
                    (the (Math_max (map (\<lambda>it. js_or_num (prepTime it) 15) (the its))) + 5) in
        if readyState s \<noteq> 1 then
          let ord = \<lparr>oid = toString now, tableNo = the tNo, items = the its,
                      order_total = the tot, estimatedTime = est, status = ''pending'',
                      createdAt = now, updatedAt = None\<rparr>
          in (Inr ord,
              s\<lparr>inMemoryOrders := inMemoryOrders s @ [ord],
                effects := effects s @
                  [Write ''inMemoryOrders.push'',
                   Emit chef_portal ''newOrder'' (order_obj ord),
                   Emit (table_room (the tNo)) ''orderConfirmed'' (order_obj ord)]\<rparr>)
        else
          let ord = \<lparr>oid = newId, tableNo = the tNo, items = map schema_item (the its),
                      order_total = the tot, estimatedTime = est, status = ''pending'',
                      createdAt = now, updatedAt = Some now\<rparr>
          in if \<not> saved then (Inl DependencyError, s)
             else (Inr ord,
                   s\<lparr>collection := collection s @ [ord],
                     effects := effects s @
                       [Write ''order.save'',
                        Emit chef_portal ''newOrder'' (order_obj ord),
                        Emit (table_room (the tNo)) ''orderConfirmed'' (order_obj ord)]\<rparr>))"

text \<open>
  Mongoose casts the identifier of \<^verbatim>\<open>findById\<close> and \<^verbatim>\<open>findByIdAndUpdate\<close> to an
  ObjectId before it asks the database: a string of 24 hexadecimal digits, in either case,
  is read as the ObjectId it spells; for any other string the promise is rejected with a
  CastError, which the handler answers with 500. This is the cast of the current driver
  (Mongoose 8 with bson 6); drivers before it also read a string of 12 characters as the 12
  bytes of an ObjectId. An ObjectId is held as the 24 lower-case digits by which it is
  printed, and so is the \<^verbatim>\<open>_id\<close> of a stored document.
\<close>

definition is_hex :: "char \<Rightarrow> bool" where
  "is_hex c \<longleftrightarrow>
     (let n = (of_char c :: nat)
      in (48 \<le> n \<and> n \<le> 57) \<or> (97 \<le> n \<and> n \<le> 102) \<or> (65 \<le> n \<and> n \<le> 70))"

definition lower_hex :: "char \<Rightarrow> char" where
  "lower_hex c = (let n = (of_char c :: nat) in if 65 \<le> n \<and> n \<le> 70 then char_of (n + 32) else c)"

definition castObjectId :: "string \<Rightarrow> string option" where
  "castObjectId str =
     (if length str = 24 \<and> list_all is_hex str then Some (map lower_hex str) else None)"

text \<open>
  \<^verbatim>\<open>GET /api/order/:id\<close>: a read. With the connection down it searches
  \<^verbatim>\<open>inMemoryOrders\<close> for the string itself, otherwise it asks the collection
  (\<open>resolves\<close>: the database answers the query of \<^verbatim>\<open>Order.findById\<close>). A rejected
  promise is caught and answered with 500.
\<close>

definition getOrder_mongo :: "bool \<Rightarrow> string \<Rightarrow> mongo \<Rightarrow> error + order" where
  "getOrder_mongo resolves ident s =
     (if readyState s \<noteq> 1 then
        (case find (\<lambda>d. oid d = ident) (inMemoryOrders s) of
           None \<Rightarrow> Inl NotFoundError
         | Some ord \<Rightarrow> Inr ord)
      else
        (case castObjectId ident of
           None \<Rightarrow> Inl DependencyError
         | Some i \<Rightarrow>
             if \<not> resolves then Inl DependencyError
             else
               (case find (\<lambda>d. oid d = i) (collection s) of
                  None \<Rightarrow> Inl NotFoundError
                | Some ord \<Rightarrow> Inr ord)))"

text \<open>
  \<^verbatim>\<open>Order.find(filter).sort({ createdAt: -1 })\<close>: newest first. The database does not say
  in which order it returns documents of equal \<^verbatim>\<open>createdAt\<close>; the insertion below puts
  the one stored later first.
\<close>

fun insert_desc :: "order \<Rightarrow> order list \<Rightarrow> order list" where
  "insert_desc x [] = [x]"
| "insert_desc x (y # ys) =
     (if createdAt y < createdAt x then x # y # ys else y # insert_desc x ys)"

definition sort_desc :: "order list \<Rightarrow> order list" where
  "sort_desc xs = foldr insert_desc xs []"

text \<open>
  \<^verbatim>\<open>GET /api/orders\<close>: only \<^verbatim>\<open>status\<close> is read from the query; the filter is
  \<^verbatim>\<open>status ? { status } : {}\<close>, so an empty string filters nothing. The second argument is
  the \<^verbatim>\<open>tableNo\<close> of the query string, which this handler never reads.
\<close>

definition listOrders_mongo ::
  "bool \<Rightarrow> string option \<Rightarrow> string option \<Rightarrow> mongo \<Rightarrow> error + order list" where
  "listOrders_mongo resolves st tNo s =
     (if \<not> resolves then Inl DependencyError
      else
        let flt = (case st of None \<Rightarrow> (\<lambda>d. True)
                   | Some v \<Rightarrow> if v = [] then (\<lambda>d. True) else (\<lambda>d. status d = v))
        in Inr (sort_desc (filter flt (collection s))))"

text \<open>
  \<^verbatim>\<open>Order.findByIdAndUpdate(id, { status, updatedAt }, { new: true })\<close> on the documents,
  the identifier already cast: the first document with the ObjectId is replaced, and
  returned as updated.
\<close>

fun findByIdAndUpdate ::
  "string \<Rightarrow> (order \<Rightarrow> order) \<Rightarrow> order list \<Rightarrow> (order \<times> order list) option" where
  "findByIdAndUpdate ident upd [] = None"
| "findByIdAndUpdate ident upd (x # xs) =
     (if oid x = ident then Some (upd x, upd x # xs)
      else (case findByIdAndUpdate ident upd xs of
              None \<Rightarrow> None
            | Some (y, ys) \<Rightarrow> Some (y, x # ys)))"

text \<open>
  \<^verbatim>\<open>PUT /api/order/:id/status\<close>; \<open>resolves\<close>: the database answers the update. The
  status is checked first; then the identifier is cast.
\<close>

definition updateStatus_mongo ::
  "nat \<Rightarrow> bool \<Rightarrow> string \<Rightarrow> string \<Rightarrow> mongo \<Rightarrow> (error + order) \<times> mongo" where
  "updateStatus_mongo now resolves ident st s =
     (if st \<notin> set validStatuses then (Inl (ValidationError ''Invalid status''), s)
      else
        (case castObjectId ident of
           None \<Rightarrow> (Inl DependencyError, s)
         | Some i \<Rightarrow>
             if \<not> resolves then (Inl DependencyError, s)
             else
               (case findByIdAndUpdate i (\<lambda>d. d\<lparr>status := st, updatedAt := Some now\<rparr>)
                       (collection s) of
                  None \<Rightarrow> (Inl NotFoundError, s)
                | Some (ord, docs) \<Rightarrow>
                    (Inr ord,
                     s\<lparr>collection := docs,
                       effects := effects s @
                         [Write ''Order.findByIdAndUpdate'',
                          Emit (table_room (tableNo ord)) ''orderStatusUpdate''
                            [(''orderId'', Str (oid ord)), (''status'', Str (status ord))],
                          Emit chef_portal ''orderStatusUpdated''
                            [(''orderId'', Str (oid ord)), (''status'', Str (status ord))]]\<rparr>))))"

section \<open>The relational server\<close>

text \<open>
  White space as \<^verbatim>\<open>parseInt\<close> skips it: the ASCII characters TAB, LF, VT, FF, CR and
  space, and in UTF-8 the no-break space, the other space separators (U+1680, U+2000 to
  U+200A, U+202F, U+205F, U+3000), the line and paragraph separators and the byte order mark.
  \<open>space_prefix\<close> is the number of leading bytes that spell one such character.
\<close>

fun space_prefix :: "nat list \<Rightarrow> nat" where
  "space_prefix (a # b # c # bs) =
     (if a \<in> {9, 10, 11, 12, 13, 32} then 1
      else if a = 194 \<and> b = 160 then 2
      else if (a = 225 \<and> b = 154 \<and> c = 128)
            \<or> (a = 226 \<and> b = 128 \<and> ((128 \<le> c \<and> c \<le> 138) \<or> c \<in> {168, 169, 175}))
            \<or> (a = 226 \<and> b = 129 \<and> c = 159)
            \<or> (a = 227 \<and> b = 128 \<and> c = 128)
            \<or> (a = 239 \<and> b = 187 \<and> c = 191) then 3
      else 0)"
| "space_prefix [a, b] =
     (if a \<in> {9, 10, 11, 12, 13, 32} then 1 else if a = 194 \<and> b = 160 then 2 else 0)"
| "space_prefix [a] = (if a \<in> {9, 10, 11, 12, 13, 32} then 1 else 0)"
| "space_prefix [] = 0"

function skip_space :: "string \<Rightarrow> string" where
  "skip_space str =
     (if space_prefix (map of_char str) = 0 then str
      else skip_space (drop (space_prefix (map of_char str)) str))"
  by pat_completeness auto
termination
proof (relation "measure length")
  show "wf (measure length)" by simp
next
  fix str :: string
  assume "space_prefix (map of_char str) \<noteq> 0"
  then have "str \<noteq> []" by (cases str) auto
  with \<open>space_prefix (map of_char str) \<noteq> 0\<close>
  show "(drop (space_prefix (map of_char str)) str, str) \<in> measure length" by simp
qed

declare skip_space.simps [simp del]

text \<open>
  The value of \<^verbatim>\<open>parseInt\<close>: NaN, an infinity (the sign is not kept), or a double that is
  a whole number.
\<close>

datatype jsint = NaN | Infinity | Whole int

text \<open>
  \<^verbatim>\<open>parseInt(string)\<close> with no radix: leading white space is skipped, a sign is read, a
  prefix 0x or 0X selects radix 16, and the longest run of digits is the value, as a double;
  with no digit the result is NaN.
\<close>

definition digit_of :: "nat \<Rightarrow> char \<Rightarrow> nat option" where
  "digit_of R c =
     (let n = (of_char c :: nat);
          d = (if 48 \<le> n \<and> n \<le> 57 then Some (n - 48)
               else if 97 \<le> n \<and> n \<le> 122 then Some (n - 87)
               else if 65 \<le> n \<and> n \<le> 90 then Some (n - 55)
               else None)
      in case d of None \<Rightarrow> None | Some v \<Rightarrow> if v < R then Some v else None)"

definition parseInt :: "string \<Rightarrow> jsint" where
  "parseInt str =
     (let s1 = skip_space str;
          sgn = (if take 1 s1 = ''-'' then - 1 else 1);
          s2 = (if take 1 s1 = ''+'' \<or> take 1 s1 = ''-'' then drop 1 s1 else s1);
          hex = (take 2 s2 = ''0x'' \<or> take 2 s2 = ''0X'');
          R = (if hex then 16 else 10);
          s3 = (if hex then drop 2 s2 else s2);
          Z = takeWhile (\<lambda>c. digit_of R c \<noteq> None) s3;
          v = to_double (of_nat (foldl (\<lambda>a c. a * R + the (digit_of R c)) 0 Z))
      in if Z = [] then NaN
         else if 2 ^ 1024 \<le> v then Infinity
         else Whole (sgn * \<lfloor>v\<rfloor>))"

text \<open>A row of the orders table, with the columns the handlers read from it.\<close>

record row =
  row_id :: int
  table_no :: rat
  row_items :: "item list"
  row_total :: rat
  row_status :: string
  estimated_time :: rat
  created_at :: nat
  updated_at :: nat

record pg =
  rows :: "row list"
  pg_effects :: "effect list"

text \<open>
  The module \<^verbatim>\<open>./models/Order\<close> with \<^verbatim>\<open>Order.create\<close>, \<^verbatim>\<open>Order.findById\<close>,
  \<^verbatim>\<open>Order.findAll\<close> and \<^verbatim>\<open>Order.updateStatus\<close> is not among the sources. The four
  functions below follow the one capability set which the specification gives the order
  store: create, getById, findAll(filters), updateStatus.
\<close>

text \<open>
  Modelled from the spec: \<^verbatim>\<open>Order.create\<close> of the absent \<^verbatim>\<open>./models/Order\<close>. The order
  is created with the fields handed over, and identity and timestamps are assigned by the
  store; the identifier \<open>newId\<close> and the clock reading \<open>now\<close> come from the environment.
\<close>

definition Order_create ::
  "nat \<Rightarrow> int \<Rightarrow> rat \<Rightarrow> item list \<Rightarrow> rat \<Rightarrow> rat \<Rightarrow> string \<Rightarrow> row list \<Rightarrow> row \<times> row list" where
  "Order_create now newId tNo its tot est st rs =
     (let r = \<lparr>row_id = newId, table_no = tNo, row_items = its, row_total = tot,
                row_status = st, estimated_time = est, created_at = now, updated_at = now\<rparr>
      in (r, rs @ [r]))"

text \<open>
  Modelled from the spec: \<^verbatim>\<open>Order.findById\<close> of the absent \<^verbatim>\<open>./models/Order\<close>. It
  yields the order with the identifier, or nothing if no order with that identifier exists.
  The identifier is the number handed over; the identifiers of the rows are whole numbers.
\<close>

definition Order_findById :: "jsint \<Rightarrow> row list \<Rightarrow> row option" where
  "Order_findById k rs = find (\<lambda>r. Whole (row_id r) = k) rs"

text \<open>
  Modelled from the spec: \<^verbatim>\<open>Order.updateStatus\<close> of the absent \<^verbatim>\<open>./models/Order\<close>. It
  sets the status and the \<^verbatim>\<open>updatedAt\<close> timestamp of the order with the identifier and
  yields the updated order, or nothing if no order with that identifier exists.
\<close>

fun Order_updateStatus ::
  "nat \<Rightarrow> jsint \<Rightarrow> string \<Rightarrow> row list \<Rightarrow> (row \<times> row list) option" where
  "Order_updateStatus now k st [] = None"
| "Order_updateStatus now k st (r # rs) =
     (if Whole (row_id r) = k
      then Some (r\<lparr>row_status := st, updated_at := now\<rparr>,
                 r\<lparr>row_status := st, updated_at := now\<rparr> # rs)
      else (case Order_updateStatus now k st rs of
              None \<Rightarrow> None
            | Some (u, us) \<Rightarrow> Some (u, r # us)))"

text \<open>
  Modelled from the spec: the order of the result of \<^verbatim>\<open>Order.findAll\<close> of the absent
  \<^verbatim>\<open>./models/Order\<close>, by creation time descending.
\<close>

fun insert_created_desc :: "row \<Rightarrow> row list \<Rightarrow> row list" where
  "insert_created_desc x [] = [x]"
| "insert_created_desc x (y # ys) =
     (if created_at y < created_at x then x # y # ys else y # insert_created_desc x ys)"

text \<open>
  Modelled from the spec: \<^verbatim>\<open>Order.findAll\<close> of the absent \<^verbatim>\<open>./models/Order\<close>. It
  returns all orders matching the optional filters. Of the filters object that
  \<^verbatim>\<open>GET /api/orders\<close> builds, an absent key is \<open>None\<close>; the key \<^verbatim>\<open>tableNo\<close> holds the
  result of \<^verbatim>\<open>parseInt\<close>, which equals no table number when it is NaN or infinite.
\<close>

definition Order_findAll :: "string option \<Rightarrow> jsint option \<Rightarrow> row list \<Rightarrow> row list" where
  "Order_findAll fstatus ftable rs =
     foldr insert_created_desc
       (filter (\<lambda>r. (case fstatus of None \<Rightarrow> True | Some v \<Rightarrow> row_status r = v) \<and>
                     (case ftable of None \<Rightarrow> True
                      | Some (Whole n) \<Rightarrow> table_no r = of_int n
                      | Some k \<Rightarrow> False)) rs) []"

text \<open>The \<^verbatim>\<open>data\<close> object of the 201 and 200 answers, built from the row.\<close>

definition row_data :: "row \<Rightarrow> payload" where
  "row_data r =
     [(''id'', Num (of_int (row_id r))), (''tableNo'', Num (table_no r)),
      (''items'', Items (row_items r)), (''total'', Num (row_total r)),
      (''status'', Str (row_status r)), (''estimatedTime'', Num (estimated_time r)),
      (''createdAt'', Date (created_at r)), (''updatedAt'', Date (updated_at r))]"

text \<open>
  \<^verbatim>\<open>POST /api/order\<close>; \<open>created\<close>: the promise of \<^verbatim>\<open>Order.create\<close> resolves. The answer
  is the row, from which the handler builds \<open>row_data\<close>.
\<close>

definition placeOrder_pg ::
  "nat \<Rightarrow> int \<Rightarrow> bool \<Rightarrow> rat option \<Rightarrow> item list option \<Rightarrow> rat option \<Rightarrow> pg
    \<Rightarrow> (error + row) \<times> pg" where
  "placeOrder_pg now newId created tNo its tot p =
     (if falsy tNo \<or> no_items its \<or> falsy tot
      then (Inl (ValidationError ''Missing required fields: tableNo, items, total''), p)
      else
        let est = to_double
                    (the (Math_max
                       (map (\<lambda>it. js_or_num (js_or (prepTime it) (prep_time it)) 15) (the its)))
                     + 5)
        in if \<not> created then (Inl DependencyError, p)
           else
             let (ord, rs) = Order_create now newId (the tNo) (the its) (the tot) est ''pending''
                               (rows p)
             in (Inr ord,
                 p\<lparr>rows := rs,
                   pg_effects := pg_effects p @
                     [Write ''Order.create'',
                      Emit chef_portal ''newOrder''
                        [(''orderId'', Num (of_int (row_id ord))), (''tableNo'', Num (table_no ord)),
                         (''items'', Items (row_items ord)), (''total'', Num (row_total ord)),
                         (''status'', Str (row_status ord)), (''createdAt'', Date (created_at ord)),
                         (''estimatedTime'', Num (estimated_time ord))],
                      Emit (table_room (the tNo)) ''orderConfirmed''
                        [(''orderId'', Num (of_int (row_id ord))), (''status'', Str (row_status ord)),
                         (''estimatedTime'', Num (estimated_time ord))]]\<rparr>))"

text \<open>
  \<^verbatim>\<open>GET /api/order/:id\<close> hands the string of the route to \<^verbatim>\<open>Order.findById\<close>. How the
  absent module reads a string as an identifier is not in the sources: it is the parameter
  \<open>reads\<close>. \<open>found\<close>: the promise of \<^verbatim>\<open>Order.findById\<close> resolves (a store that
  rejects a string it cannot read is \<open>found\<close> false, answered with 500).
\<close>

definition getOrder_pg :: "bool \<Rightarrow> (string \<Rightarrow> jsint) \<Rightarrow> string \<Rightarrow> pg \<Rightarrow> error + row" where
  "getOrder_pg found reads ident p =
     (if \<not> found then Inl DependencyError
      else
        (case Order_findById (reads ident) (rows p) of
           None \<Rightarrow> Inl NotFoundError
         | Some ord \<Rightarrow> Inr ord))"

text \<open>
  \<^verbatim>\<open>GET /api/orders\<close>: \<^verbatim>\<open>status\<close> and \<^verbatim>\<open>tableNo\<close> of the query string become filters
  when they are non-empty.
\<close>

definition listOrders_pg ::
  "bool \<Rightarrow> string option \<Rightarrow> string option \<Rightarrow> pg \<Rightarrow> error + row list" where
  "listOrders_pg resolves st tNo p =
     (let fstatus = (case st of None \<Rightarrow> None | Some v \<Rightarrow> if v = [] then None else Some v);
          ftable = (case tNo of None \<Rightarrow> None
                    | Some v \<Rightarrow> if v = [] then None else Some (parseInt v))
      in if \<not> resolves then Inl DependencyError
         else Inr (Order_findAll fstatus ftable (rows p)))"

text \<open>
  \<^verbatim>\<open>PUT /api/order/:id/status\<close>; \<open>updated\<close> and \<open>found\<close>: the promises of
  \<^verbatim>\<open>Order.updateStatus\<close> and of the following \<^verbatim>\<open>Order.findById\<close> resolve. Reading
  \<^verbatim>\<open>table_no\<close> of a null \<^verbatim>\<open>fullOrder\<close> throws, which is answered with 500.
\<close>

definition updateStatus_pg ::
  "nat \<Rightarrow> bool \<Rightarrow> bool \<Rightarrow> string \<Rightarrow> string \<Rightarrow> pg \<Rightarrow> (error + row) \<times> pg" where
  "updateStatus_pg now updated found orderId st p =
     (if orderId = [] \<or> orderId = ''undefined'' \<or> parseInt orderId = NaN
      then (Inl (ValidationError ''Invalid order ID''), p)
      else if st \<notin> set validStatuses then (Inl (ValidationError ''Invalid status''), p)
      else if \<not> updated then (Inl DependencyError, p)
      else
        (case Order_updateStatus now (parseInt orderId) st (rows p) of
           None \<Rightarrow> (Inl NotFoundError, p)
         | Some (updatedOrder, rs) \<Rightarrow>
             let p1 = p\<lparr>rows := rs, pg_effects := pg_effects p @ [Write ''Order.updateStatus'']\<rparr>
             in if \<not> found then (Inl DependencyError, p1)
                else
                  (case Order_findById (parseInt orderId) rs of
                     None \<Rightarrow> (Inl DependencyError, p1)
                   | Some fullOrder \<Rightarrow>
                       (Inr fullOrder,
                        p1\<lparr>pg_effects := pg_effects p1 @
                             [Emit (table_room (table_no fullOrder)) ''orderStatusUpdate''
                                [(''orderId'', Num (of_int (row_id fullOrder))),
                                 (''status'', Str (row_status fullOrder)),
                                 (''updatedAt'', Date (updated_at fullOrder))],
                              Emit chef_portal ''orderStatusUpdated''
                                [(''orderId'', Num (of_int (row_id fullOrder))),
                                 (''status'', Str (row_status fullOrder))]]\<rparr>))))"

section \<open>Runs of the servers\<close>

text \<open>
  The document-store server starts with an empty collection and an empty fallback list. Its
  state changes when the connection changes, when the process restarts (the module variable
  \<^verbatim>\<open>inMemoryOrders\<close> is empty again, the collection stays) and when one of the two
  writing handlers runs; the reading handlers leave it as it is. A run is a list of such
  events, each with what the environment supplies to it.
\<close>

datatype mongo_event =
    Connection nat
  | Restart nat
  | PlaceOrder nat string bool "rat option" "item list option" "rat option"
  | UpdateStatus nat bool string string

fun step_mongo :: "mongo \<Rightarrow> mongo_event \<Rightarrow> mongo" where
  "step_mongo s (Connection c) = s\<lparr>readyState := c\<rparr>"
| "step_mongo s (Restart c) = s\<lparr>readyState := c, inMemoryOrders := []\<rparr>"
| "step_mongo s (PlaceOrder now newId saved tNo its tot) =
     snd (placeOrder_mongo now newId saved tNo its tot s)"
| "step_mongo s (UpdateStatus now resolves ident st) =
     snd (updateStatus_mongo now resolves ident st s)"

definition run_mongo :: "nat \<Rightarrow> mongo_event list \<Rightarrow> mongo" where
  "run_mongo c evs =
     foldl step_mongo \<lparr>readyState = c, collection = [], inMemoryOrders = [], effects = []\<rparr> evs"

text \<open>The relational server keeps its orders in the table only.\<close>

datatype pg_event =
    PlaceOrderPg nat int bool "rat option" "item list option" "rat option"
  | UpdateStatusPg nat bool bool string string

fun step_pg :: "pg \<Rightarrow> pg_event \<Rightarrow> pg" where
  "step_pg p (PlaceOrderPg now newId created tNo its tot) =
     snd (placeOrder_pg now newId created tNo its tot p)"
| "step_pg p (UpdateStatusPg now updated found orderId st) =
     snd (updateStatus_pg now updated found orderId st p)"

definition run_pg :: "pg_event list \<Rightarrow> pg" where
  "run_pg evs = foldl step_pg \<lparr>rows = [], pg_effects = []\<rparr> evs"

section \<open>Notions of the specification\<close>



text \<open>
  A payload carries the full snapshot of an order when every field of the order is in it with
  the same value; the identifier may travel under the key \<^verbatim>\<open>orderId\<close>.
\<close>

definition full_snapshot :: "payload \<Rightarrow> payload \<Rightarrow> bool" where
  "full_snapshot pl snap \<longleftrightarrow>
     list_all (\<lambda>(k, v). (k, v) \<in> set pl \<or> (k = ''id'' \<and> (''orderId'', v) \<in> set pl)) snap"

text \<open>
  Every emission in a run of effects comes after a completed store write of that run; the
  flag says whether a write has been seen.
\<close>

fun emits_follow_write :: "bool \<Rightarrow> effect list \<Rightarrow> bool" where
  "emits_follow_write written [] = True"
| "emits_follow_write written (Write w # es) = emits_follow_write True es"
| "emits_follow_write written (Emit r ev pl # es) = (written \<and> emits_follow_write written es)"

section \<open>Example requests and states\<close>

definition pizza :: item where
  "pizza = \<lparr>name = ''Pizza'', price = 349, quantity = 2, category = ''main'',
             prepTime = Some 20, prep_time = None\<rparr>"


definition mongo_down :: mongo where
  "mongo_down = \<lparr>readyState = 0, collection = [], inMemoryOrders = [], effects = []\<rparr>"

definition mongo_up :: mongo where
  "mongo_up = \<lparr>readyState = 1, collection = [], inMemoryOrders = [], effects = []\<rparr>"

definition pg_empty :: pg where
  "pg_empty = \<lparr>rows = [], pg_effects = []\<rparr>"

text \<open>The order object built when table 4 orders two pizzas at clock reading 1000, the connection down.\<close>

definition fallback_one :: order where
  "fallback_one = \<lparr>oid = ''1000'', tableNo = 4, items = [pizza], order_total = 698,
                    estimatedTime = 25, status = ''pending'', createdAt = 1000,
                    updatedAt = None\<rparr>"

text \<open>Table 4 orders two pizzas at clock reading 1000, with the database connected.\<close>

definition mongo_one :: mongo where
  "mongo_one = snd (placeOrder_mongo 1000 ''64b7f0c2a1e4d3f5a6b7c801'' True (Some 4) (Some [pizza]) (Some 698) mongo_up)"

text \<open>The document which that request stores.\<close>

definition order_one :: order where
  "order_one = \<lparr>oid = ''64b7f0c2a1e4d3f5a6b7c801'', tableNo = 4, items = [schema_item pizza],
                 order_total = 698, estimatedTime = 25, status = ''pending'',
                 createdAt = 1000, updatedAt = Some 1000\<rparr>"

text \<open>Then table 7 orders one pizza at clock reading 2000.\<close>

definition mongo_two :: mongo where
  "mongo_two = snd (placeOrder_mongo 2000 ''64b7f0c2a1e4d3f5a6b7c802'' True (Some 7) (Some [pizza]) (Some 349) mongo_one)"

text \<open>The document which that request stores.\<close>

definition order_two :: order where
  "order_two = \<lparr>oid = ''64b7f0c2a1e4d3f5a6b7c802'', tableNo = 7, items = [schema_item pizza],
                 order_total = 349, estimatedTime = 25, status = ''pending'',
                 createdAt = 2000, updatedAt = Some 2000\<rparr>"

text \<open>After the first order, the kitchen marks it ready at clock reading 3000.\<close>

definition mongo_ready :: mongo where
  "mongo_ready = snd (updateStatus_mongo 3000 True ''64b7f0c2a1e4d3f5a6b7c801'' ''ready'' mongo_one)"

text \<open>Table 4 orders two pizzas at clock reading 1000, with the connection down.\<close>

definition mongo_fallback :: mongo where
  "mongo_fallback =
     snd (placeOrder_mongo 1000 ''64b7f0c2a1e4d3f5a6b7c801'' True (Some 4) (Some [pizza]) (Some 698) mongo_down)"

definition pg_one :: pg where
  "pg_one = snd (placeOrder_pg 1000 1 True (Some 4) (Some [pizza]) (Some 698) pg_empty)"

text \<open>Then table 7 orders one pizza at clock reading 2000.\<close>

definition pg_two :: pg where
  "pg_two = snd (placeOrder_pg 2000 2 True (Some 7) (Some [pizza]) (Some 349) pg_one)"

text \<open>The row which the first request creates.\<close>

definition pg_row_one :: row where
  "pg_row_one = \<lparr>row_id = 1, table_no = 4, row_items = [pizza], row_total = 698,
                  row_status = ''pending'', estimated_time = 25, created_at = 1000,
                  updated_at = 1000\<rparr>"

section \<open>Auxiliary facts\<close>

lemma published_append: "published (xs @ ys) = published xs @ published ys"
  by (induction xs rule: published.induct) simp_all


lemma pizza_prep: "prepTime pizza = Some 20" "prep_time pizza = None"
  by (simp_all add: pizza_def)

subsection \<open>Rounding to a double\<close>

lemma round_even_of_int: "round_even (of_int k) = k"
  by (simp add: round_even_def)

lemma floor_log2_of_int:
  assumes "0 < a"
  shows "floor_log2 (of_int a) = bitlen a - 1"
proof -
  have q: "quotient_of (of_int a) = (a, 1)"
    by (metis Rat.of_int_def quotient_of_int)
  from bitlen_bounds [OF assms] have b: "2 ^ nat (bitlen a - 1) \<le> a" ..
  from assms have "1 \<le> bitlen a" by (auto simp: bitlen_alt_def)
  then have "pow2 (bitlen a - 1) = 2 ^ nat (bitlen a - 1)" by (simp add: pow2_def)
  also have "\<dots> = of_int (2 ^ nat (bitlen a - 1))" by simp
  also from b have "\<dots> \<le> (of_int a :: rat)" by (simp only: of_int_le_iff)
  finally have "pow2 (bitlen a - 1) \<le> of_int a" .
  moreover have "bitlen 1 = 1" by (simp add: bitlen_alt_def)
  ultimately show ?thesis by (simp add: floor_log2_def q)
qed

lemma to_double_2_53:
  "to_double 9007199254740992 = 9007199254740992"
  "to_double (- 9007199254740992) = - 9007199254740992"
  by code_simp+

text \<open>A whole number of magnitude at most \<open>2 ^ 53\<close> is a double.\<close>

lemma to_double_of_int:
  assumes "\<bar>n\<bar> \<le> 2 ^ 53"
  shows "to_double (of_int n) = of_int n"
proof (cases "n = 0")
  case True
  then show ?thesis by (simp add: to_double_def)
next
  case False
  define a where "a = \<bar>n\<bar>"
  define e where "e = bitlen a - 1"
  from False have a: "0 < a" by (simp add: a_def)
  from a have e0: "0 \<le> e" by (auto simp: e_def bitlen_alt_def)
  from bitlen_bounds [OF a] have "(2::int) ^ nat e \<le> a" by (simp add: e_def)
  with assms have le: "(2::int) ^ nat e \<le> 2 ^ 53" by (simp add: a_def)
  have e53: "e \<le> 53"
  proof (rule ccontr)
    assume "\<not> e \<le> 53"
    then have "53 < nat e" by simp
    then have "(2::int) ^ 53 < 2 ^ nat e" by (rule power_strict_increasing) simp
    with le show False by simp
  qed
  have fl: "floor_log2 \<bar>of_int n\<bar> = e"
    using floor_log2_of_int [OF a] by (simp add: a_def e_def)
  show ?thesis
  proof (cases "e \<le> 52")
    case True
    define k where "k = nat (52 - e)"
    from True e0 have m: "max (e - 52) (- 1074) = e - 52" by simp
    from True have p: "pow2 (e - 52) = 1 / 2 ^ k"
      by (cases "e = 52") (simp_all add: pow2_def k_def)
    have "of_int n / (1 / 2 ^ k) = (of_int (n * 2 ^ k) :: rat)" by simp
    then have "round_even (of_int n / (1 / 2 ^ k)) = n * 2 ^ k"
      by (simp only: round_even_of_int)
    with False show ?thesis by (simp add: to_double_def fl m p)
  next
    case False
    with e53 have e: "e = 53" by simp
    from bitlen_bounds [OF a] have "(2::int) ^ 53 \<le> a" by (simp add: e_def [symmetric] e)
    with assms have a53: "a = 2 ^ 53" by (simp add: a_def)
    then have "n = 2 ^ 53 \<or> n = - (2 ^ 53)" by (auto simp: a_def abs_if split: if_splits)
    then show ?thesis
    proof
      assume "n = 2 ^ 53"
      then show ?thesis by (simp add: to_double_2_53)
    next
      assume "n = - (2 ^ 53)"
      then show ?thesis by (simp add: to_double_2_53)
    qed
  qed
qed

lemma to_double_Ints:
  assumes "x \<in> \<int>" and "\<bar>x\<bar> \<le> 2 ^ 53"
  shows "to_double x = x"
proof -
  from assms(1) obtain n where x: "x = of_int n" by (auto elim: Ints_cases)
  with assms(2) have "\<bar>n\<bar> \<le> 2 ^ 53"
    by (metis of_int_abs of_int_le_iff of_int_numeral of_int_power)
  from to_double_of_int [OF this] x show ?thesis by simp
qed

lemma to_double_25: "to_double 25 = 25"
  using to_double_Ints [of 25] by simp


text \<open>Beyond \<open>2 ^ 53\<close> the sum is rounded: adding 5 to \<open>2 ^ 53\<close> gives \<open>2 ^ 53 + 4\<close>.\<close>

lemma to_double_rounds: "to_double (9007199254740992 + 5) = 9007199254740996"
  by code_simp

subsection \<open>Identifiers\<close>

lemma cast_one: "castObjectId ''64b7f0c2a1e4d3f5a6b7c801'' = Some ''64b7f0c2a1e4d3f5a6b7c801''"
  by (simp add: castObjectId_def is_hex_def lower_hex_def)




lemma findByIdAndUpdate_None:
  "findByIdAndUpdate ident upd xs = None \<longleftrightarrow> (\<forall>d \<in> set xs. oid d \<noteq> ident)"
  by (induction xs) (auto split: option.splits)

lemma findByIdAndUpdate_absent:
  "\<forall>d \<in> set xs. oid d \<noteq> ident \<Longrightarrow> findByIdAndUpdate ident upd xs = None"
  by (simp add: findByIdAndUpdate_None)

lemma findByIdAndUpdate_find:
  assumes "findByIdAndUpdate ident upd xs = Some (y, ys)" and "\<And>d. oid (upd d) = oid d"
  shows "find (\<lambda>d. oid d = ident) ys = Some y \<and> (\<exists>x \<in> set xs. y = upd x)"
  using assms by (induction xs arbitrary: y ys) (auto split: if_splits option.splits)

lemma findByIdAndUpdate_set:
  "findByIdAndUpdate ident upd xs = Some (y, ys) \<Longrightarrow> set ys \<subseteq> set xs \<union> upd ` set xs"
  by (induction xs arbitrary: y ys) (auto split: if_splits option.splits)



lemma Order_updateStatus_find:
  assumes "Order_updateStatus now k st rs = Some (u, us)"
  shows "Order_findById k us = Some u
       \<and> (\<exists>r \<in> set rs. u = r\<lparr>row_status := st, updated_at := now\<rparr>)"
  using assms unfolding Order_findById_def
  by (induction rs arbitrary: u us) (auto split: if_splits option.splits)

lemma Order_updateStatus_set:
  "Order_updateStatus now k st rs = Some (u, us) \<Longrightarrow>
     set us \<subseteq> set rs \<union> (\<lambda>r. r\<lparr>row_status := st, updated_at := now\<rparr>) ` set rs"
  by (induction rs arbitrary: u us) (auto split: if_splits option.splits)




lemma parseInt_1: "parseInt ''1'' = Whole 1"
  by code_simp

lemma parseInt_7: "parseInt ''7'' = Whole 7"
  by code_simp

text \<open>A no-break space before the digit is skipped.\<close>

lemma parseInt_nbsp: "parseInt [char_of (194 :: nat), char_of (160 :: nat), CHR ''1''] = Whole 1"
  by code_simp

lemma pending_valid: "''pending'' \<in> set validStatuses"
  by (simp add: validStatuses_def)

lemma ready_valid: "''ready'' \<in> set validStatuses"
  by (simp add: validStatuses_def)

subsection \<open>The example states, evaluated\<close>

lemma toString_1000: "toString 1000 = ''1000''"
  by code_simp

lemma place_mongo_down_one:
  "placeOrder_mongo 1000 newId saved (Some 4) (Some [pizza]) (Some 698) mongo_down =
     (Inr fallback_one,
      \<lparr>readyState = 0, collection = [], inMemoryOrders = [fallback_one],
        effects =
          [Write ''inMemoryOrders.push'',
           Emit chef_portal ''newOrder'' (order_obj fallback_one),
           Emit (table_room 4) ''orderConfirmed'' (order_obj fallback_one)]\<rparr>)"
  by (simp add: placeOrder_mongo_def falsy_def no_items_def Let_def pizza_prep js_or_num_def
        mongo_down_def toString_1000 fallback_one_def to_double_25)

lemma place_pg_one:
  "placeOrder_pg 1000 1 True (Some 4) (Some [pizza]) (Some 698) pg_empty =
     (Inr pg_row_one,
      \<lparr>rows = [pg_row_one],
        pg_effects =
          [Write ''Order.create'',
           Emit chef_portal ''newOrder''
             [(''orderId'', Num 1), (''tableNo'', Num 4), (''items'', Items [pizza]),
              (''total'', Num 698), (''status'', Str ''pending''), (''createdAt'', Date 1000),
              (''estimatedTime'', Num 25)],
           Emit (table_room 4) ''orderConfirmed''
             [(''orderId'', Num 1), (''status'', Str ''pending''), (''estimatedTime'', Num 25)]]\<rparr>)"
  by (simp add: placeOrder_pg_def falsy_def no_items_def Let_def pizza_prep js_or_def js_or_num_def
        Order_create_def pg_empty_def pg_row_one_def to_double_25)

lemma mongo_fallback_state:
  "mongo_fallback =
     \<lparr>readyState = 0, collection = [], inMemoryOrders = [fallback_one],
       effects =
         [Write ''inMemoryOrders.push'',
          Emit chef_portal ''newOrder'' (order_obj fallback_one),
          Emit (table_room 4) ''orderConfirmed'' (order_obj fallback_one)]\<rparr>"
  by (simp add: mongo_fallback_def place_mongo_down_one)

lemma mongo_one_state:
  "mongo_one =
     \<lparr>readyState = 1, collection = [order_one], inMemoryOrders = [],
       effects =
         [Write ''order.save'',
          Emit chef_portal ''newOrder'' (order_obj order_one),
          Emit (table_room 4) ''orderConfirmed'' (order_obj order_one)]\<rparr>"
  by (simp add: mongo_one_def placeOrder_mongo_def falsy_def no_items_def Let_def pizza_prep
        js_or_num_def mongo_up_def order_one_def to_double_25)

lemma mongo_two_collection: "collection mongo_two = [order_one, order_two]"
  by (simp add: mongo_two_def mongo_one_state placeOrder_mongo_def falsy_def no_items_def Let_def
        pizza_prep js_or_num_def order_two_def to_double_25)

lemma update_one_ready:
  "updateStatus_mongo now True ''64b7f0c2a1e4d3f5a6b7c801'' ''ready'' mongo_one =
     (Inr (order_one\<lparr>status := ''ready'', updatedAt := Some now\<rparr>),
      mongo_one\<lparr>collection := [order_one\<lparr>status := ''ready'', updatedAt := Some now\<rparr>],
        effects := effects mongo_one @
          [Write ''Order.findByIdAndUpdate'',
           Emit (table_room 4) ''orderStatusUpdate''
             [(''orderId'', Str ''64b7f0c2a1e4d3f5a6b7c801''), (''status'', Str ''ready'')],
           Emit chef_portal ''orderStatusUpdated''
             [(''orderId'', Str ''64b7f0c2a1e4d3f5a6b7c801''), (''status'', Str ''ready'')]]\<rparr>)"
  by (simp add: updateStatus_mongo_def ready_valid mongo_one_state order_one_def cast_one)

lemma mongo_ready_state:
  "collection mongo_ready = [order_one\<lparr>status := ''ready'', updatedAt := Some 3000\<rparr>]
   \<and> readyState mongo_ready = 1"
  by (simp add: mongo_ready_def update_one_ready) (simp add: mongo_one_state)

lemma update_ready_served:
  "updateStatus_mongo now True ''64b7f0c2a1e4d3f5a6b7c801'' ''served'' mongo_ready =
     (Inr (order_one\<lparr>status := ''served'', updatedAt := Some now\<rparr>),
      mongo_ready\<lparr>collection := [order_one\<lparr>status := ''served'', updatedAt := Some now\<rparr>],
        effects := effects mongo_ready @
          [Write ''Order.findByIdAndUpdate'',
           Emit (table_room 4) ''orderStatusUpdate''
             [(''orderId'', Str ''64b7f0c2a1e4d3f5a6b7c801''), (''status'', Str ''served'')],
           Emit chef_portal ''orderStatusUpdated''
             [(''orderId'', Str ''64b7f0c2a1e4d3f5a6b7c801''), (''status'', Str ''served'')]]\<rparr>)"
  by (simp add: updateStatus_mongo_def validStatuses_def mongo_ready_state order_one_def cast_one)

lemma pg_one_rows: "rows pg_one = [pg_row_one]"
  by (simp add: pg_one_def place_pg_one)

lemma update_pg_one_ready:
  "fst (updateStatus_pg 3000 True True ''1'' ''ready'' pg_one) =
     Inr (pg_row_one\<lparr>row_status := ''ready'', updated_at := 3000\<rparr>)"
  by (simp add: updateStatus_pg_def parseInt_1 ready_valid pg_one_rows Order_findById_def Let_def)
     (simp add: pg_row_one_def)

lemma pg_two_rows: "map table_no (rows pg_two) = [4, 7]"
  by (simp add: pg_two_def placeOrder_pg_def falsy_def no_items_def Let_def Order_create_def
        pg_one_rows pg_row_one_def)

lemma run_mongo_ready:
  "run_mongo 1
     [PlaceOrder 1000 ''64b7f0c2a1e4d3f5a6b7c801'' True (Some 4) (Some [pizza]) (Some 698),
      UpdateStatus 3000 True ''64b7f0c2a1e4d3f5a6b7c801'' ''ready''] = mongo_ready"
  by (simp add: run_mongo_def mongo_ready_def mongo_one_def mongo_up_def)

lemma run_mongo_fallback:
  "run_mongo 0 [PlaceOrder 1000 ''64b7f0c2a1e4d3f5a6b7c801'' True (Some 4) (Some [pizza]) (Some 698)] =
     mongo_fallback"
  by (simp add: run_mongo_def mongo_fallback_def mongo_down_def)

lemma run_pg_one:
  "run_pg [PlaceOrderPg 1000 1 True (Some 4) (Some [pizza]) (Some 698)] = pg_one"
  by (simp add: run_pg_def pg_one_def pg_empty_def)

subsection \<open>What the writing handlers keep\<close>

lemma placeOrder_mongo_keeps_valid:
  assumes "\<forall>d \<in> set (collection s) \<union> set (inMemoryOrders s). status d \<in> set validStatuses"
  shows "\<forall>d \<in> set (collection (snd (placeOrder_mongo now newId saved tNo its tot s)))
              \<union> set (inMemoryOrders (snd (placeOrder_mongo now newId saved tNo its tot s))).
           status d \<in> set validStatuses"
  using assms pending_valid by (auto simp: placeOrder_mongo_def Let_def)

lemma updateStatus_mongo_keeps_valid:
  assumes "\<forall>d \<in> set (collection s) \<union> set (inMemoryOrders s). status d \<in> set validStatuses"
  shows "\<forall>d \<in> set (collection (snd (updateStatus_mongo now resolves ident st s)))
              \<union> set (inMemoryOrders (snd (updateStatus_mongo now resolves ident st s))).
           status d \<in> set validStatuses"
proof (cases "st \<in> set validStatuses \<and> resolves")
  case False
  with assms show ?thesis by (auto simp: updateStatus_mongo_def split: option.splits)
next
  case True
  show ?thesis
  proof (cases "castObjectId ident")
    case None
    with True assms show ?thesis by (simp add: updateStatus_mongo_def)
  next
    case (Some i)
    note cast = this
    show ?thesis
    proof (cases "findByIdAndUpdate i (\<lambda>d. d\<lparr>status := st, updatedAt := Some now\<rparr>)
                    (collection s)")
      case None
      with True cast assms show ?thesis by (simp add: updateStatus_mongo_def)
    next
      case (Some a)
      obtain y ys where a: "a = (y, ys)" by (cases a)
      from findByIdAndUpdate_set [OF Some [unfolded a]]
      have "set ys \<subseteq> set (collection s)
              \<union> (\<lambda>d. d\<lparr>status := st, updatedAt := Some now\<rparr>) ` set (collection s)" .
      with assms True have "\<forall>d \<in> set ys. status d \<in> set validStatuses" by auto
      with True cast Some a assms show ?thesis by (auto simp: updateStatus_mongo_def)
    qed
  qed
qed

lemma step_mongo_keeps_valid:
  assumes "\<forall>d \<in> set (collection s) \<union> set (inMemoryOrders s). status d \<in> set validStatuses"
  shows "\<forall>d \<in> set (collection (step_mongo s ev)) \<union> set (inMemoryOrders (step_mongo s ev)).
           status d \<in> set validStatuses"
proof (cases ev)
  case (Connection c)
  with assms show ?thesis by simp
next
  case (Restart c)
  with assms show ?thesis by simp
next
  case (PlaceOrder now newId saved tNo its tot)
  with placeOrder_mongo_keeps_valid [OF assms] show ?thesis by simp
next
  case (UpdateStatus now resolves ident st)
  with updateStatus_mongo_keeps_valid [OF assms] show ?thesis by simp
qed

lemma foldl_step_mongo_valid:
  "\<forall>d \<in> set (collection s) \<union> set (inMemoryOrders s). status d \<in> set validStatuses \<Longrightarrow>
   \<forall>d \<in> set (collection (foldl step_mongo s evs)) \<union> set (inMemoryOrders (foldl step_mongo s evs)).
     status d \<in> set validStatuses"
proof (induction evs arbitrary: s)
  case Nil
  then show ?case by simp
next
  case (Cons ev evs)
  from Cons.prems have
    "\<forall>d \<in> set (collection (step_mongo s ev)) \<union> set (inMemoryOrders (step_mongo s ev)).
       status d \<in> set validStatuses"
    by (rule step_mongo_keeps_valid)
  from Cons.IH [OF this] show ?case by simp
qed

lemma placeOrder_pg_keeps_valid:
  assumes "\<forall>r \<in> set (rows p). row_status r \<in> set validStatuses"
  shows "\<forall>r \<in> set (rows (snd (placeOrder_pg now newId created tNo its tot p))).
           row_status r \<in> set validStatuses"
  using assms pending_valid by (auto simp: placeOrder_pg_def Order_create_def Let_def)

lemma updateStatus_pg_keeps_valid:
  assumes "\<forall>r \<in> set (rows p). row_status r \<in> set validStatuses"
  shows "\<forall>r \<in> set (rows (snd (updateStatus_pg now updated found orderId st p))).
           row_status r \<in> set validStatuses"
proof (cases "orderId \<noteq> [] \<and> orderId \<noteq> ''undefined'' \<and> parseInt orderId \<noteq> NaN
              \<and> st \<in> set validStatuses \<and> updated")
  case False
  with assms show ?thesis by (auto simp: updateStatus_pg_def)
next
  case True
  show ?thesis
  proof (cases "Order_updateStatus now (parseInt orderId) st (rows p)")
    case None
    with True assms show ?thesis by (simp add: updateStatus_pg_def)
  next
    case (Some a)
    obtain u us where a: "a = (u, us)" by (cases a)
    from Order_updateStatus_set [OF Some [unfolded a]] assms True
    have "\<forall>r \<in> set us. row_status r \<in> set validStatuses" by auto
    with True Some a show ?thesis
      by (auto simp: updateStatus_pg_def Let_def split: option.splits)
  qed
qed

lemma step_pg_keeps_valid:
  assumes "\<forall>r \<in> set (rows p). row_status r \<in> set validStatuses"
  shows "\<forall>r \<in> set (rows (step_pg p ev)). row_status r \<in> set validStatuses"
proof (cases ev)
  case (PlaceOrderPg now newId created tNo its tot)
  with placeOrder_pg_keeps_valid [OF assms] show ?thesis by simp
next
  case (UpdateStatusPg now updated found orderId st)
  with updateStatus_pg_keeps_valid [OF assms] show ?thesis by simp
qed

lemma foldl_step_pg_valid:
  "\<forall>r \<in> set (rows p). row_status r \<in> set validStatuses \<Longrightarrow>
   \<forall>r \<in> set (rows (foldl step_pg p evs)). row_status r \<in> set validStatuses"
proof (induction evs arbitrary: p)
  case Nil
  then show ?case by simp
next
  case (Cons ev evs)
  from Cons.prems have "\<forall>r \<in> set (rows (step_pg p ev)). row_status r \<in> set validStatuses"
    by (rule step_pg_keeps_valid)
  from Cons.IH [OF this] show ?case by simp
qed

lemma placeOrder_mongo_fallback_pending:
  assumes "\<forall>d \<in> set (inMemoryOrders s). status d = ''pending''"
  shows "\<forall>d \<in> set (inMemoryOrders (snd (placeOrder_mongo now newId saved tNo its tot s))).
           status d = ''pending''"
  using assms by (auto simp: placeOrder_mongo_def Let_def)

lemma updateStatus_mongo_inMemoryOrders:
  "inMemoryOrders (snd (updateStatus_mongo now resolves ident st s)) = inMemoryOrders s"
  by (simp add: updateStatus_mongo_def split: option.splits)

lemma step_mongo_fallback_pending:
  assumes "\<forall>d \<in> set (inMemoryOrders s). status d = ''pending''"
  shows "\<forall>d \<in> set (inMemoryOrders (step_mongo s ev)). status d = ''pending''"
proof (cases ev)
  case (Connection c)
  with assms show ?thesis by simp
next
  case (Restart c)
  then show ?thesis by simp
next
  case (PlaceOrder now newId saved tNo its tot)
  with placeOrder_mongo_fallback_pending [OF assms] show ?thesis by simp
next
  case (UpdateStatus now resolves ident st)
  with assms show ?thesis by (simp add: updateStatus_mongo_inMemoryOrders)
qed

lemma foldl_step_mongo_fallback_pending:
  "\<forall>d \<in> set (inMemoryOrders s). status d = ''pending'' \<Longrightarrow>
   \<forall>d \<in> set (inMemoryOrders (foldl step_mongo s evs)). status d = ''pending''"
proof (induction evs arbitrary: s)
  case Nil
  then show ?case by simp
next
  case (Cons ev evs)
  from Cons.prems have "\<forall>d \<in> set (inMemoryOrders (step_mongo s ev)). status d = ''pending''"
    by (rule step_mongo_fallback_pending)
  from Cons.IH [OF this] show ?case by simp
qed

section \<open>Placing an order\<close>

text \<open>
  C1 (as amended). \<^verbatim>\<open>POST /api/order\<close> answers 400, a validation error, whenever
  \<^verbatim>\<open>tableNo\<close> is absent or 0, or \<^verbatim>\<open>items\<close> is absent or empty, or \<^verbatim>\<open>total\<close> is absent
  or 0; and then neither server writes to its store or emits an event: the whole state is as
  before. The check is one of presence (\<^verbatim>\<open>!tableNo || !items || !items.length || !total\<close>),
  not of sign.
\<close>

theorem placeOrder_missing_fields:
  assumes "tNo = None \<or> tNo = Some 0 \<or> its = None \<or> its = Some [] \<or> tot = None \<or> tot = Some 0"
  shows "placeOrder_mongo now newId saved tNo its tot s =
           (Inl (ValidationError ''Missing required fields''), s)
       \<and> placeOrder_pg now newId' created tNo its tot p =
           (Inl (ValidationError ''Missing required fields: tableNo, items, total''), p)"
  using assms by (auto simp: placeOrder_mongo_def placeOrder_pg_def no_items_def falsy_def)

theorem placeOrder_missing_fields_witness:
  "placeOrder_mongo 1000 ''64b7f0c2a1e4d3f5a6b7c801'' True (Some 0) (Some [pizza]) (Some 698)
       mongo_down =
     (Inl (ValidationError ''Missing required fields''), mongo_down)
   \<and> placeOrder_pg 1000 1 True (Some 0) (Some [pizza]) (Some 698) pg_empty =
     (Inl (ValidationError ''Missing required fields: tableNo, items, total''), pg_empty)"
  using placeOrder_missing_fields [of "Some 0" "Some [pizza]" "Some 698"] by simp

text \<open>
  The claim as stated fails for a table number that is present and not positive: table -1
  with one pizza is accepted, the order is pushed and both events are emitted.
\<close>

theorem placeOrder_negative_table_accepted:
  "\<not> is_ValidationError
        (fst (placeOrder_mongo 1000 ''64b7f0c2a1e4d3f5a6b7c801'' True (Some (- 1)) (Some [pizza]) (Some 698) mongo_down))
   \<and> length (inMemoryOrders
        (snd (placeOrder_mongo 1000 ''64b7f0c2a1e4d3f5a6b7c801'' True (Some (- 1)) (Some [pizza]) (Some 698) mongo_down))) = 1
   \<and> length (published (effects
        (snd (placeOrder_mongo 1000 ''64b7f0c2a1e4d3f5a6b7c801'' True (Some (- 1)) (Some [pizza]) (Some 698) mongo_down)))) = 2"
  by (simp add: placeOrder_mongo_def falsy_def no_items_def mongo_down_def Let_def)




text \<open>
  C3 (as amended). Every successful \<^verbatim>\<open>POST /api/order\<close> emits exactly two events:
  \<^verbatim>\<open>newOrder\<close> to the room \<^verbatim>\<open>chef_portal\<close> and \<^verbatim>\<open>orderConfirmed\<close> to the room of the
  requesting table. In the document-store server both carry the created order object itself.
  In the relational server \<^verbatim>\<open>newOrder\<close> carries orderId, tableNo, items, total, status,
  createdAt and estimatedTime (not updatedAt), and \<^verbatim>\<open>orderConfirmed\<close> carries only orderId,
  status and estimatedTime.
\<close>

theorem placeOrder_events:
  "(fst (placeOrder_mongo now newId saved tNo its tot s) = Inr ord \<longrightarrow>
      published (effects (snd (placeOrder_mongo now newId saved tNo its tot s))) =
        published (effects s) @
          [(chef_portal, ''newOrder'', order_obj ord),
           (table_room (the tNo), ''orderConfirmed'', order_obj ord)])
   \<and> (fst (placeOrder_pg now newId' created tNo its tot p) = Inr r \<longrightarrow>
      published (pg_effects (snd (placeOrder_pg now newId' created tNo its tot p))) =
        published (pg_effects p) @
          [(chef_portal, ''newOrder'',
            [(''orderId'', Num (of_int (row_id r))), (''tableNo'', Num (table_no r)),
             (''items'', Items (row_items r)), (''total'', Num (row_total r)),
             (''status'', Str (row_status r)), (''createdAt'', Date (created_at r)),
             (''estimatedTime'', Num (estimated_time r))]),
           (table_room (the tNo), ''orderConfirmed'',
            [(''orderId'', Num (of_int (row_id r))), (''status'', Str (row_status r)),
             (''estimatedTime'', Num (estimated_time r))])])"
  by (auto simp: placeOrder_mongo_def placeOrder_pg_def Order_create_def Let_def published_append)

theorem placeOrder_events_witness:
  "published (effects (snd (placeOrder_mongo 1000 ''64b7f0c2a1e4d3f5a6b7c801'' True (Some 4) (Some [pizza])
                             (Some 698) mongo_down))) =
     [(chef_portal, ''newOrder'', order_obj fallback_one),
      (table_room 4, ''orderConfirmed'', order_obj fallback_one)]
   \<and> published (pg_effects (snd (placeOrder_pg 1000 1 True (Some 4) (Some [pizza]) (Some 698)
                                   pg_empty))) =
     [(chef_portal, ''newOrder'',
       [(''orderId'', Num 1), (''tableNo'', Num 4), (''items'', Items [pizza]),
        (''total'', Num 698), (''status'', Str ''pending''), (''createdAt'', Date 1000),
        (''estimatedTime'', Num 25)]),
      (table_room 4, ''orderConfirmed'',
       [(''orderId'', Num 1), (''status'', Str ''pending''), (''estimatedTime'', Num 25)])]"
proof -
  have m: "fst (placeOrder_mongo 1000 ''64b7f0c2a1e4d3f5a6b7c801'' True (Some 4) (Some [pizza]) (Some 698)
                 mongo_down) = Inr fallback_one"
    by (simp add: place_mongo_down_one)
  have q: "fst (placeOrder_pg 1000 1 True (Some 4) (Some [pizza]) (Some 698) pg_empty) =
             Inr pg_row_one"
    by (simp add: place_pg_one)
  from m q placeOrder_events [where now = 1000 and newId = "''64b7f0c2a1e4d3f5a6b7c801''" and saved = True
      and tNo = "Some 4" and its = "Some [pizza]" and tot = "Some 698" and s = mongo_down
      and newId' = 1 and created = True and p = pg_empty and r = pg_row_one
      and ord = fallback_one]
  show ?thesis by (simp add: mongo_down_def pg_empty_def pg_row_one_def)
qed

text \<open>
  The claim as stated fails in the relational server: the \<^verbatim>\<open>orderConfirmed\<close> payload of a
  successful request is not a full snapshot of the order that the request returns.
\<close>

theorem placeOrder_pg_partial_payload:
  "fst (placeOrder_pg 1000 1 True (Some 4) (Some [pizza]) (Some 698) pg_empty) = Inr pg_row_one
   \<and> published (pg_effects (snd (placeOrder_pg 1000 1 True (Some 4) (Some [pizza]) (Some 698)
                                   pg_empty))) ! 1 =
       (table_room 4, ''orderConfirmed'',
        [(''orderId'', Num 1), (''status'', Str ''pending''), (''estimatedTime'', Num 25)])
   \<and> \<not> full_snapshot
         [(''orderId'', Num 1), (''status'', Str ''pending''), (''estimatedTime'', Num 25)]
         (row_data pg_row_one)"
  by (simp add: place_pg_one full_snapshot_def row_data_def pg_row_one_def)

section \<open>Updating a status\<close>

text \<open>
  C4. For every order identifier and every new status that is not one of pending, confirmed,
  preparing, ready, served, cancelled, \<^verbatim>\<open>PUT /api/order/:id/status\<close> answers 400, a
  validation error, and leaves the whole state as it was: no stored order changes and no
  event is emitted. (The relational server answers 400 for a malformed identifier before it
  looks at the status.)
\<close>

theorem updateStatus_invalid_status:
  assumes "st \<notin> set validStatuses"
  shows "updateStatus_mongo now resolves ident st s = (Inl (ValidationError ''Invalid status''), s)
       \<and> is_ValidationError (fst (updateStatus_pg now updated found orderId st p))
       \<and> snd (updateStatus_pg now updated found orderId st p) = p"
  using assms by (simp add: updateStatus_mongo_def updateStatus_pg_def)

theorem updateStatus_invalid_status_witness:
  "updateStatus_mongo 3000 True ''64b7f0c2a1e4d3f5a6b7c801'' ''done'' mongo_one =
      (Inl (ValidationError ''Invalid status''), mongo_one)
   \<and> is_ValidationError (fst (updateStatus_pg 3000 True True ''1'' ''done'' pg_one))
   \<and> snd (updateStatus_pg 3000 True True ''1'' ''done'' pg_one) = pg_one"
proof -
  have "''done'' \<notin> set validStatuses" by (simp add: validStatuses_def)
  from updateStatus_invalid_status [OF this] show ?thesis by blast
qed




text \<open>
  C6 (as amended). After a successful \<^verbatim>\<open>PUT /api/order/:id/status\<close>,
  \<^verbatim>\<open>GET /api/order/:id\<close> returns the order that the update returned; its status is the new
  status and its \<^verbatim>\<open>updatedAt\<close> is the clock reading of the update. That is later than the
  previous \<^verbatim>\<open>updatedAt\<close> only if the clock has advanced since. This holds in the
  document-store server with the database connected and answering, and in the relational
  server with the store answering and reading the identifier as the \<^verbatim>\<open>PUT\<close> route does.
\<close>

theorem updateStatus_then_getOrder:
  "(updateStatus_mongo now resolves ident st s = (Inr ord, s') \<and> readyState s = 1 \<longrightarrow>
      getOrder_mongo True ident s' = Inr ord \<and> status ord = st \<and> updatedAt ord = Some now)
   \<and> (updateStatus_pg now updated found orderId st p = (Inr r, p')
        \<and> reads orderId = parseInt orderId \<longrightarrow>
      getOrder_pg True reads orderId p' = Inr r \<and> row_status r = st \<and> updated_at r = now)"
proof -
  have mongo: "getOrder_mongo True ident s' = Inr ord \<and> status ord = st \<and> updatedAt ord = Some now"
    if u: "updateStatus_mongo now resolves ident st s = (Inr ord, s')" and c: "readyState s = 1"
  proof -
    from u have valid: "st \<in> set validStatuses"
      by (auto simp: updateStatus_mongo_def split: if_splits)
    from u valid obtain i where i: "castObjectId ident = Some i"
      by (cases "castObjectId ident") (auto simp: updateStatus_mongo_def)
    from u valid i have res: resolves
      by (auto simp: updateStatus_mongo_def split: if_splits)
    from u valid i res obtain docs where
      upd: "findByIdAndUpdate i (\<lambda>d. d\<lparr>status := st, updatedAt := Some now\<rparr>) (collection s)
              = Some (ord, docs)"
      and s': "collection s' = docs" "readyState s' = readyState s"
      by (auto simp: updateStatus_mongo_def split: option.splits)
    from findByIdAndUpdate_find [OF upd]
    have "find (\<lambda>d. oid d = i) docs = Some ord"
      and "\<exists>x \<in> set (collection s). ord = x\<lparr>status := st, updatedAt := Some now\<rparr>"
      by simp_all
    with s' c i show ?thesis by (auto simp: getOrder_mongo_def)
  qed
  have pg: "getOrder_pg True reads orderId p' = Inr r \<and> row_status r = st \<and> updated_at r = now"
    if u: "updateStatus_pg now updated found orderId st p = (Inr r, p')"
      and k: "reads orderId = parseInt orderId"
  proof -
    from u have g: "\<not> (orderId = [] \<or> orderId = ''undefined'' \<or> parseInt orderId = NaN)"
      and valid: "st \<in> set validStatuses"
      by (auto simp: updateStatus_pg_def split: if_splits)
    from u g valid have upd: updated
      by (auto simp: updateStatus_pg_def split: if_splits)
    from u g valid upd obtain w rs where
      w: "Order_updateStatus now (parseInt orderId) st (rows p) = Some (w, rs)"
      by (cases "Order_updateStatus now (parseInt orderId) st (rows p)")
         (auto simp: updateStatus_pg_def)
    from Order_updateStatus_find [OF w]
    have f: "Order_findById (parseInt orderId) rs = Some w"
      and x: "\<exists>x \<in> set (rows p). w = x\<lparr>row_status := st, updated_at := now\<rparr>"
      by simp_all
    from u g valid upd w f have "r = w" and "rows p' = rs"
      by (auto simp: updateStatus_pg_def Let_def split: if_splits)
    with f x k show ?thesis by (auto simp: getOrder_pg_def)
  qed
  from mongo pg show ?thesis by blast
qed

theorem updateStatus_then_getOrder_witness:
  "getOrder_mongo True ''64b7f0c2a1e4d3f5a6b7c801'' mongo_ready =
      Inr (order_one\<lparr>status := ''ready'', updatedAt := Some 3000\<rparr>)
   \<and> status (order_one\<lparr>status := ''ready'', updatedAt := Some 3000\<rparr>) = ''ready''
   \<and> updatedAt (order_one\<lparr>status := ''ready'', updatedAt := Some 3000\<rparr>) = Some 3000
   \<and> getOrder_pg True parseInt ''1'' (snd (updateStatus_pg 3000 True True ''1'' ''ready'' pg_one)) =
      Inr (pg_row_one\<lparr>row_status := ''ready'', updated_at := 3000\<rparr>)
   \<and> row_status (pg_row_one\<lparr>row_status := ''ready'', updated_at := 3000\<rparr>) = ''ready''
   \<and> updated_at (pg_row_one\<lparr>row_status := ''ready'', updated_at := 3000\<rparr>) = 3000"
proof -
  have u: "updateStatus_mongo 3000 True ''64b7f0c2a1e4d3f5a6b7c801'' ''ready'' mongo_one =
             (Inr (order_one\<lparr>status := ''ready'', updatedAt := Some 3000\<rparr>), mongo_ready)"
    by (simp add: mongo_ready_def update_one_ready)
  have c: "readyState mongo_one = 1" by (simp add: mongo_one_state)
  have v: "updateStatus_pg 3000 True True ''1'' ''ready'' pg_one =
             (Inr (pg_row_one\<lparr>row_status := ''ready'', updated_at := 3000\<rparr>),
              snd (updateStatus_pg 3000 True True ''1'' ''ready'' pg_one))"
    by (simp add: update_pg_one_ready [symmetric])
  from u c v
    updateStatus_then_getOrder [where now = 3000 and resolves = True
      and ident = "''64b7f0c2a1e4d3f5a6b7c801''" and st = "''ready''" and s = mongo_one
      and ord = "order_one\<lparr>status := ''ready'', updatedAt := Some 3000\<rparr>" and s' = mongo_ready
      and updated = True and found = True and orderId = "''1''" and p = pg_one
      and r = "pg_row_one\<lparr>row_status := ''ready'', updated_at := 3000\<rparr>"
      and p' = "snd (updateStatus_pg 3000 True True ''1'' ''ready'' pg_one)"
      and reads = parseInt]
  show ?thesis by simp
qed

text \<open>
  The claim as stated fails when two updates read the same clock value: the order marked
  ready at clock reading 3000 and marked served at clock reading 3000 has the
  \<^verbatim>\<open>updatedAt\<close> 3000 before and after the second update.
\<close>

theorem updateStatus_same_clock_reading:
  "map_sum id updatedAt (getOrder_mongo True ''64b7f0c2a1e4d3f5a6b7c801'' mongo_ready) =
      Inr (Some 3000)
   \<and> map_sum id status
        (fst (updateStatus_mongo 3000 True ''64b7f0c2a1e4d3f5a6b7c801'' ''served'' mongo_ready))
        = Inr ''served''
   \<and> map_sum id updatedAt
        (getOrder_mongo True ''64b7f0c2a1e4d3f5a6b7c801''
           (snd (updateStatus_mongo 3000 True ''64b7f0c2a1e4d3f5a6b7c801'' ''served''
                   mongo_ready)))
        = Inr (Some 3000)"
  by (simp add: update_ready_served getOrder_mongo_def mongo_ready_state order_one_def cast_one)

section \<open>Listing orders\<close>

text \<open>
  C7. The claim: the list holds exactly the orders matching the optional \<^verbatim>\<open>status\<close> and
  \<^verbatim>\<open>tableNo\<close> filters, newest first. The document-store server does not read
  \<^verbatim>\<open>tableNo\<close> from the query: with the orders of tables 4 and 7 stored, its list for
  \<^verbatim>\<open>tableNo=7\<close> holds both, newest first.
\<close>

theorem listOrders_mongo_ignores_tableNo:
  "map_sum id (map tableNo) (listOrders_mongo True None (Some ''7'') mongo_two) = Inr [7, 4]"
  by (simp add: listOrders_mongo_def mongo_two_collection sort_desc_def order_one_def
        order_two_def)

text \<open>With a \<^verbatim>\<open>status\<close> filter alone that server does what the claim says.\<close>

lemma set_insert_desc: "set (insert_desc x xs) = insert x (set xs)"
  by (induction xs) auto

lemma sorted_insert_desc:
  "sorted_wrt (\<lambda>a b. createdAt b \<le> createdAt a) xs \<Longrightarrow>
   sorted_wrt (\<lambda>a b. createdAt b \<le> createdAt a) (insert_desc x xs)"
  by (induction xs) (auto simp: set_insert_desc)

lemma set_sort_desc: "set (sort_desc xs) = set xs"
  unfolding sort_desc_def by (induction xs) (simp_all add: set_insert_desc)

lemma sorted_sort_desc: "sorted_wrt (\<lambda>a b. createdAt b \<le> createdAt a) (sort_desc xs)"
  unfolding sort_desc_def by (induction xs) (simp_all add: sorted_insert_desc)

lemma listOrders_mongo_status_newest_first:
  assumes "listOrders_mongo True (Some v) tNo s = Inr xs" and "v \<noteq> []"
  shows "set xs = {d \<in> set (collection s). status d = v}
       \<and> sorted_wrt (\<lambda>a b. createdAt b \<le> createdAt a) xs"
  using assms by (auto simp: listOrders_mongo_def set_sort_desc sorted_sort_desc)

text \<open>
  The relational handler reads \<^verbatim>\<open>tableNo\<close> and hands it to the store as a filter: with
  the rows of tables 4 and 7, the list for \<^verbatim>\<open>tableNo=7\<close> holds the row of table 7 alone.
\<close>

lemma listOrders_pg_filters_tableNo:
  "map_sum id (map table_no) (listOrders_pg True None (Some ''7'') pg_two) = Inr [7]"
proof -
  have "\<exists>a b. rows pg_two = [a, b] \<and> table_no a = 4 \<and> table_no b = 7"
    using pg_two_rows by (cases "rows pg_two") auto
  then show ?thesis
    by (auto simp: listOrders_pg_def Order_findAll_def parseInt_7)
qed

section \<open>Invariants\<close>

text \<open>
  C8. After every run of either server, the status of every stored order (in the collection,
  in the fallback list, in the table) is one of the six values of \<open>validStatuses\<close>.
\<close>

theorem persisted_status_valid:
  "(\<forall>d \<in> set (collection (run_mongo c evs)) \<union> set (inMemoryOrders (run_mongo c evs)).
      status d \<in> set validStatuses)
   \<and> (\<forall>r \<in> set (rows (run_pg evs')). row_status r \<in> set validStatuses)"
proof -
  have "\<forall>d \<in> set (collection (run_mongo c evs)) \<union> set (inMemoryOrders (run_mongo c evs)).
          status d \<in> set validStatuses"
    unfolding run_mongo_def by (rule foldl_step_mongo_valid) simp
  moreover have "\<forall>r \<in> set (rows (run_pg evs')). row_status r \<in> set validStatuses"
    unfolding run_pg_def by (rule foldl_step_pg_valid) simp
  ultimately show ?thesis by blast
qed

theorem persisted_status_valid_witness:
  "map status (collection mongo_ready) = [''ready''] \<and> ''ready'' \<in> set validStatuses
   \<and> map row_status (rows pg_one) = [''pending''] \<and> ''pending'' \<in> set validStatuses"
proof -
  have c: "map status (collection mongo_ready) = [''ready'']"
    by (simp add: mongo_ready_state)
  have r: "map row_status (rows pg_one) = [''pending'']"
    by (simp add: pg_one_rows pg_row_one_def)
  from persisted_status_valid
         [of 1 "[PlaceOrder 1000 ''64b7f0c2a1e4d3f5a6b7c801'' True (Some 4) (Some [pizza]) (Some 698),
                 UpdateStatus 3000 True ''64b7f0c2a1e4d3f5a6b7c801'' ''ready'']"
             "[PlaceOrderPg 1000 1 True (Some 4) (Some [pizza]) (Some 698)]"]
  have "(\<forall>d \<in> set (collection mongo_ready). status d \<in> set validStatuses)
      \<and> (\<forall>r \<in> set (rows pg_one). row_status r \<in> set validStatuses)"
    unfolding run_mongo_ready run_pg_one by blast
  then have "(\<forall>x \<in> set (map status (collection mongo_ready)). x \<in> set validStatuses)
      \<and> (\<forall>x \<in> set (map row_status (rows pg_one)). x \<in> set validStatuses)"
    by simp
  with c r show ?thesis by simp
qed

text \<open>
  C9. In every run of the two writing handlers of either server, each emission comes after a
  completed store write of that run; and when the promise of the write is rejected, the
  handler emits nothing.
\<close>

theorem emits_only_after_write:
  "emits_follow_write False
      (drop (length (effects s)) (effects (snd (placeOrder_mongo now newId saved tNo its tot s))))
   \<and> emits_follow_write False
      (drop (length (effects s)) (effects (snd (updateStatus_mongo now resolves ident st s))))
   \<and> emits_follow_write False
      (drop (length (pg_effects p))
         (pg_effects (snd (placeOrder_pg now newId' created tNo its tot p))))
   \<and> emits_follow_write False
      (drop (length (pg_effects p))
         (pg_effects (snd (updateStatus_pg now updated found orderId st p))))
   \<and> (readyState s = 1 \<and> \<not> saved \<longrightarrow>
        effects (snd (placeOrder_mongo now newId saved tNo its tot s)) = effects s)
   \<and> (\<not> resolves \<longrightarrow>
        effects (snd (updateStatus_mongo now resolves ident st s)) = effects s)
   \<and> (\<not> created \<longrightarrow>
        pg_effects (snd (placeOrder_pg now newId' created tNo its tot p)) = pg_effects p)
   \<and> (\<not> updated \<longrightarrow>
        pg_effects (snd (updateStatus_pg now updated found orderId st p)) = pg_effects p)"
proof -
  have a: "emits_follow_write False
      (drop (length (effects s)) (effects (snd (placeOrder_mongo now newId saved tNo its tot s))))"
    by (simp add: placeOrder_mongo_def Let_def)
  have b: "emits_follow_write False
      (drop (length (effects s)) (effects (snd (updateStatus_mongo now resolves ident st s))))"
    by (simp add: updateStatus_mongo_def split: option.splits)
  have c: "emits_follow_write False
      (drop (length (pg_effects p))
         (pg_effects (snd (placeOrder_pg now newId' created tNo its tot p))))"
    by (simp add: placeOrder_pg_def Order_create_def Let_def)
  have d: "emits_follow_write False
      (drop (length (pg_effects p))
         (pg_effects (snd (updateStatus_pg now updated found orderId st p))))"
    by (simp add: updateStatus_pg_def Let_def split: option.splits)
  have e: "readyState s = 1 \<and> \<not> saved \<longrightarrow>
        effects (snd (placeOrder_mongo now newId saved tNo its tot s)) = effects s"
    by (simp add: placeOrder_mongo_def Let_def)
  have f: "\<not> resolves \<longrightarrow>
        effects (snd (updateStatus_mongo now resolves ident st s)) = effects s"
    by (simp add: updateStatus_mongo_def split: option.splits)
  have g: "\<not> created \<longrightarrow>
        pg_effects (snd (placeOrder_pg now newId' created tNo its tot p)) = pg_effects p"
    by (simp add: placeOrder_pg_def Let_def)
  have h: "\<not> updated \<longrightarrow>
        pg_effects (snd (updateStatus_pg now updated found orderId st p)) = pg_effects p"
    by (simp add: updateStatus_pg_def)
  from a b c d e f g h show ?thesis by blast
qed

theorem emits_only_after_write_witness:
  "emits_follow_write False
      (effects (snd (placeOrder_mongo 1000 ''64b7f0c2a1e4d3f5a6b7c801'' True (Some 4) (Some [pizza]) (Some 698)
                       mongo_up)))
   \<and> effects (snd (placeOrder_mongo 1000 ''64b7f0c2a1e4d3f5a6b7c801'' False (Some 4) (Some [pizza]) (Some 698)
                     mongo_up)) = []
   \<and> effects (snd (updateStatus_mongo 3000 False ''64b7f0c2a1e4d3f5a6b7c801'' ''ready'' mongo_up)) = []
   \<and> pg_effects (snd (placeOrder_pg 1000 1 False (Some 4) (Some [pizza]) (Some 698) pg_empty)) = []
   \<and> pg_effects (snd (updateStatus_pg 3000 False True ''1'' ''ready'' pg_empty)) = []"
  using emits_only_after_write [where s = mongo_up and p = pg_empty and now = 1000
      and newId = "''64b7f0c2a1e4d3f5a6b7c801''" and saved = True and tNo = "Some 4" and its = "Some [pizza]"
      and tot = "Some 698"]
    emits_only_after_write [where s = mongo_up and p = pg_empty and now = 1000
      and newId = "''64b7f0c2a1e4d3f5a6b7c801''" and saved = False and tNo = "Some 4" and its = "Some [pizza]"
      and tot = "Some 698" and newId' = 1 and created = False]
    emits_only_after_write [where s = mongo_up and p = pg_empty and now = 3000
      and resolves = False and ident = "''64b7f0c2a1e4d3f5a6b7c801''" and st = "''ready''"
      and updated = False and found = True and orderId = "''1''"]
  by (simp add: mongo_up_def pg_empty_def)

section \<open>The fallback list\<close>

text \<open>
  C10. In the document-store server with the connection down, a successful
  \<^verbatim>\<open>POST /api/order\<close> appends the pending order to \<^verbatim>\<open>inMemoryOrders\<close> and leaves the
  collection alone, and \<^verbatim>\<open>GET /api/order/:id\<close> searches \<^verbatim>\<open>inMemoryOrders\<close>. The update
  handler never writes \<^verbatim>\<open>inMemoryOrders\<close> and its answer does not depend on it; for an
  identifier that is not the ObjectId of a document of the collection (so for every
  identifier that spells no ObjectId, as the 13 decimal digits of a present-day clock reading
  do not), its answer is an error. Hence after every run every order of the fallback list is
  still pending.
\<close>

theorem fallback_orders_stay_pending:
  "(readyState s \<noteq> 1 \<and> fst (placeOrder_mongo now newId saved tNo its tot s) = Inr ord \<longrightarrow>
      status ord = ''pending''
      \<and> inMemoryOrders (snd (placeOrder_mongo now newId saved tNo its tot s)) =
          inMemoryOrders s @ [ord]
      \<and> collection (snd (placeOrder_mongo now newId saved tNo its tot s)) = collection s)
   \<and> (readyState s \<noteq> 1 \<longrightarrow>
        getOrder_mongo resolves ident s =
          (case find (\<lambda>d. oid d = ident) (inMemoryOrders s) of
             None \<Rightarrow> Inl NotFoundError | Some d \<Rightarrow> Inr d))
   \<and> inMemoryOrders (snd (updateStatus_mongo now' resolves' ident st s)) = inMemoryOrders s
   \<and> fst (updateStatus_mongo now' resolves' ident st (s\<lparr>inMemoryOrders := xs\<rparr>)) =
       fst (updateStatus_mongo now' resolves' ident st s)
   \<and> ((\<forall>d \<in> set (collection s). Some (oid d) \<noteq> castObjectId ident) \<longrightarrow>
        isl (fst (updateStatus_mongo now' resolves' ident st s)))
   \<and> (\<forall>d \<in> set (inMemoryOrders (run_mongo c evs)). status d = ''pending'')"
proof -
  have a: "readyState s \<noteq> 1 \<and> fst (placeOrder_mongo now newId saved tNo its tot s) = Inr ord \<longrightarrow>
      status ord = ''pending''
      \<and> inMemoryOrders (snd (placeOrder_mongo now newId saved tNo its tot s)) =
          inMemoryOrders s @ [ord]
      \<and> collection (snd (placeOrder_mongo now newId saved tNo its tot s)) = collection s"
    by (auto simp: placeOrder_mongo_def Let_def split: if_splits)
  have b: "readyState s \<noteq> 1 \<longrightarrow>
        getOrder_mongo resolves ident s =
          (case find (\<lambda>d. oid d = ident) (inMemoryOrders s) of
             None \<Rightarrow> Inl NotFoundError | Some d \<Rightarrow> Inr d)"
    by (simp add: getOrder_mongo_def)
  have c: "fst (updateStatus_mongo now' resolves' ident st (s\<lparr>inMemoryOrders := xs\<rparr>)) =
       fst (updateStatus_mongo now' resolves' ident st s)"
    by (simp add: updateStatus_mongo_def split: option.splits)
  have d: "(\<forall>d \<in> set (collection s). Some (oid d) \<noteq> castObjectId ident) \<longrightarrow>
        isl (fst (updateStatus_mongo now' resolves' ident st s))"
    by (cases "castObjectId ident") (auto simp: updateStatus_mongo_def findByIdAndUpdate_absent)
  have e: "\<forall>d \<in> set (inMemoryOrders (run_mongo c evs)). status d = ''pending''"
    unfolding run_mongo_def by (rule foldl_step_mongo_fallback_pending) simp
  from a b c d e updateStatus_mongo_inMemoryOrders show ?thesis by blast
qed

theorem fallback_orders_stay_pending_witness:
  "status fallback_one = ''pending''
   \<and> inMemoryOrders mongo_fallback = inMemoryOrders mongo_down @ [fallback_one]
   \<and> collection mongo_fallback = collection mongo_down
   \<and> getOrder_mongo True ''1000'' mongo_fallback = Inr fallback_one
   \<and> inMemoryOrders (snd (updateStatus_mongo 3000 True ''1000'' ''ready'' mongo_fallback)) =
        inMemoryOrders mongo_fallback
   \<and> isl (fst (updateStatus_mongo 3000 True ''1000'' ''ready'' mongo_fallback))
   \<and> map status (inMemoryOrders mongo_fallback) = [''pending'']"
proof -
  have p: "readyState mongo_down \<noteq> 1
      \<and> fst (placeOrder_mongo 1000 ''64b7f0c2a1e4d3f5a6b7c801'' True (Some 4) (Some [pizza]) (Some 698)
               mongo_down) = Inr fallback_one"
    by (simp add: place_mongo_down_one) (simp add: mongo_down_def)
  have g: "readyState mongo_fallback \<noteq> 1"
    "\<forall>d \<in> set (collection mongo_fallback). Some (oid d) \<noteq> castObjectId ''1000''"
    "find (\<lambda>d. oid d = ''1000'') (inMemoryOrders mongo_fallback) = Some fallback_one"
    by (simp_all add: mongo_fallback_state) (simp add: fallback_one_def)
  have im: "inMemoryOrders mongo_fallback = [fallback_one]"
    by (simp add: mongo_fallback_state)
  from p fallback_orders_stay_pending [where s = mongo_down and now = 1000
      and newId = "''64b7f0c2a1e4d3f5a6b7c801''" and saved = True and tNo = "Some 4" and its = "Some [pizza]"
      and tot = "Some 698" and ord = fallback_one]
  have first: "status fallback_one = ''pending''
      \<and> inMemoryOrders mongo_fallback = inMemoryOrders mongo_down @ [fallback_one]
      \<and> collection mongo_fallback = collection mongo_down"
    unfolding mongo_fallback_def by blast
  from g fallback_orders_stay_pending [where s = mongo_fallback and resolves = True
      and ident = "''1000''" and now' = 3000 and resolves' = True and st = "''ready''"
      and c = 0
      and evs = "[PlaceOrder 1000 ''64b7f0c2a1e4d3f5a6b7c801'' True (Some 4) (Some [pizza]) (Some 698)]"]
  have second: "getOrder_mongo True ''1000'' mongo_fallback = Inr fallback_one
      \<and> inMemoryOrders (snd (updateStatus_mongo 3000 True ''1000'' ''ready'' mongo_fallback)) =
          inMemoryOrders mongo_fallback
      \<and> isl (fst (updateStatus_mongo 3000 True ''1000'' ''ready'' mongo_fallback))
      \<and> (\<forall>d \<in> set (inMemoryOrders mongo_fallback). status d = ''pending'')"
    unfolding run_mongo_fallback by simp
  with im have "map status (inMemoryOrders mongo_fallback) = [''pending'']" by simp
  with first second show ?thesis by simp
qed

end
